theory Spec2Isabelle
  imports Main
begin

section \<open>JavaScript values and objects\<close>

text \<open>
  The coordinator (\<^verbatim>\<open>start\<close>, \<^verbatim>\<open>stop\<close> and \<^verbatim>\<open>isSignalEnabled\<close>) receives a plain
  JavaScript options object. It inspects its values only through nullishness (\<^verbatim>\<open>??\<close>),
  truthiness (\<^verbatim>\<open>if\<close>, \<^verbatim>\<open>?:\<close>) and \<^verbatim>\<open>Object.assign\<close>, so a value is one of the shapes
  these operations tell apart. An object is the list of its own enumerable properties in
  insertion order; a property read takes the first binding of the key.
\<close>

datatype jsval =
    JUndefined
  | JNull
  | JBool bool
  | JString string
  | JObject "(string \<times> jsval) list"

type_synonym object = "(string \<times> jsval) list"

fun truthy :: "jsval \<Rightarrow> bool" where
  "truthy JUndefined = False"
| "truthy JNull = False"
| "truthy (JBool b) = b"
| "truthy (JString s) = (s \<noteq> [])"
| "truthy (JObject fs) = True"

fun nullish :: "jsval \<Rightarrow> bool" where
  "nullish JUndefined = True"
| "nullish JNull = True"
| "nullish v = False"

text \<open>Property read \<^verbatim>\<open>obj.key\<close>: a missing property reads as \<^verbatim>\<open>undefined\<close>.\<close>

definition get :: "object \<Rightarrow> string \<Rightarrow> jsval" where
  "get obj key = (case map_of obj key of None \<Rightarrow> JUndefined | Some v \<Rightarrow> v)"

text \<open>\<^verbatim>\<open>Object.keys(obj)\<close>.\<close>

definition keys :: "object \<Rightarrow> string list" where
  "keys obj = map fst obj"

text \<open>
  Property write \<^verbatim>\<open>obj[key] = v\<close>: an existing key keeps its place, a new one is appended.
  JavaScript enumerates integer-like keys ahead of the others; the list keeps insertion
  order throughout, which differs from it in the order of the keys only, never in the
  keys or their values.
\<close>

fun put :: "string \<Rightarrow> jsval \<Rightarrow> object \<Rightarrow> object" where
  "put key v [] = [(key, v)]"
| "put key v (p # ps) = (if fst p = key then (key, v) # ps else p # put key v ps)"

text \<open>Decimal rendering of an array index, for the index properties of a string.\<close>

function decimal :: "nat \<Rightarrow> string" where
  "decimal n =
     (if n < 10 then [''0123456789'' ! n]
      else decimal (n div 10) @ [''0123456789'' ! (n mod 10)])"
  by pat_completeness auto
termination
  by (relation "measure id") auto

text \<open>
  The own enumerable properties \<^verbatim>\<open>Object.assign\<close> copies from a source: those of an
  object, the index properties of a string, none of \<^verbatim>\<open>undefined\<close>, \<^verbatim>\<open>null\<close> or a boolean.
\<close>

fun ownEnumerable :: "jsval \<Rightarrow> object" where
  "ownEnumerable (JObject fs) = fs"
| "ownEnumerable (JString s) =
     map (\<lambda>i. (decimal i, JString [s ! i])) [0..<length s]"
| "ownEnumerable v = []"

definition objectAssign :: "object \<Rightarrow> jsval \<Rightarrow> object" where
  "objectAssign target src = foldl (\<lambda>t (k, v). put k v t) target (ownEnumerable src)"

section \<open>Errors, log levels, completions\<close>

text \<open>
  The errors a \<^verbatim>\<open>start\<close> call can throw: the re-entrant error of line 83, the
  unrecognized-option error of \<^verbatim>\<open>assertNoExtraneousProperties\<close> (with the offending keys),
  and an opaque failure raised by one of the external engines, which \<^verbatim>\<open>start\<close> does not catch.
\<close>

datatype error =
    AlreadyStarted
  | UnrecognizedOption "string list"
  | SubsystemFailure string

text \<open>\<^verbatim>\<open>DiagLogLevel\<close> of the diagnostics API.\<close>

datatype DiagLogLevel = NONE | ERROR | WARN | INFO | DEBUG | VERBOSE | ALL

text \<open>
  A promise, abstracted to how it eventually settles. \<^verbatim>\<open>Promise.all\<close> rejects as soon as
  one member rejects, is fulfilled when all are, and otherwise never settles.
\<close>

datatype completion = Fulfilled | Rejected | Pending

definition promiseAll :: "completion list \<Rightarrow> completion" where
  "promiseAll ps =
     (if Rejected \<in> set ps then Rejected
      else if Pending \<in> set ps then Pending
      else Fulfilled)"

datatype meterProvider = ApiMeterProvider | NoopMeterProvider

section \<open>Helpers of \<^verbatim>\<open>./utils\<close>\<close>

text \<open>
  Modelled from the spec: \<^verbatim>\<open>getNonEmptyEnvVar\<close> of \<^verbatim>\<open>./utils\<close> is not among the sources.
  The spec (section 6): "read a named environment variable as a non-empty string".
  The process environment is a partial map from names to strings.
\<close>

definition getNonEmptyEnvVar :: "(string \<Rightarrow> string option) \<Rightarrow> string \<Rightarrow> string option" where
  "getNonEmptyEnvVar environ key =
     (case environ key of
        None \<Rightarrow> None
      | Some v \<Rightarrow> if v = [] then None else Some v)"

definition lowerChar :: "char \<Rightarrow> char" where
  "lowerChar c =
     (case map_of (zip ''ABCDEFGHIJKLMNOPQRSTUVWXYZ'' ''abcdefghijklmnopqrstuvwxyz'') c of
        None \<Rightarrow> c
      | Some l \<Rightarrow> l)"

text \<open>
  Modelled from the spec: \<^verbatim>\<open>parseEnvBooleanString\<close> of \<^verbatim>\<open>./utils\<close> is not among the
  sources. The spec (sections 4.1 and 6): "parse a boolean-string ("true"/"false") into
  true/false/absent", "case-insensitive".
\<close>

definition parseEnvBooleanString :: "string option \<Rightarrow> bool option" where
  "parseEnvBooleanString v =
     (case v of
        None \<Rightarrow> None
      | Some s \<Rightarrow>
          if map lowerChar s = ''true'' then Some True
          else if map lowerChar s = ''false'' then Some False
          else None)"

text \<open>
  Modelled from the spec: \<^verbatim>\<open>assertNoExtraneousProperties\<close> of \<^verbatim>\<open>./utils\<close> is not among
  the sources. The spec (section 4.1): "Rejects (fatally) any top-level option key outside
  the recognized identity/log-level set".
\<close>

definition assertNoExtraneousProperties :: "object \<Rightarrow> string list \<Rightarrow> error + unit" where
  "assertNoExtraneousProperties obj expectedProps =
     (case filter (\<lambda>k. k \<notin> set expectedProps) (keys obj) of
        [] \<Rightarrow> Inr ()
      | extraneous \<Rightarrow> Inl (UnrecognizedOption extraneous))"

text \<open>
  Modelled from the spec: \<^verbatim>\<open>pick\<close> of \<^verbatim>\<open>./utils\<close> is not among the sources. The spec
  (section 4.1): "filtering the shared identity fields down to profiling's accepted option
  names".
\<close>

definition pick :: "object \<Rightarrow> string list \<Rightarrow> object" where
  "pick obj names = filter (\<lambda>p. fst p \<in> set names) obj"

section \<open>External collaborators and the process state\<close>

text \<open>
  The engines, the instrumentation registry and the remaining helpers are black boxes
  (spec, section 6); the coordinator is verified for every behaviour they may have. A
  subsystem start either throws (an opaque failure, here its message) or returns a handle
  (an object, hence truthy). The stop operations of the metrics handle and of the tracing
  engine return a completion; the stop operation of the profiling handle is synchronous
  and may throw. An engine does not change the option bag it is handed, and materializing
  the profiling defaults has no effect (spec, section 6).
\<close>

record ('h, 'i) collaborators =
  env :: "string \<Rightarrow> string option"
  toDiagLogLevel :: "jsval \<Rightarrow> DiagLogLevel"
  parseLogLevel :: "string option \<Rightarrow> DiagLogLevel"
  getEnvBoolean :: "string \<Rightarrow> bool \<Rightarrow> bool"
  allowedProfilingOptions :: "string list"
  allowedTracingOptions :: "string list"
  allowedMetricsOptions :: "string list"
  startProfiling :: "object \<Rightarrow> string + 'h"
  setDefaultProfilingOptions :: "object \<Rightarrow> object"
  startTracing :: "object \<Rightarrow> string + 'h"
  startMetrics :: "object \<Rightarrow> string + 'h"
  getLoadedInstrumentations :: "'i list"
  metricsStop :: "'h \<Rightarrow> completion"
  stopTracing :: "completion"
  profilingStop :: "'h \<Rightarrow> string + unit"

text \<open>The calls the coordinator makes on the outside world, in the order it makes them.\<close>

datatype ('h, 'i) effect =
    SetConsoleLogger DiagLogLevel
  | StartProfiling object
  | StartTracing object
  | StartMetrics object
  | SetMeterProvider 'i meterProvider
  | MetricsStop 'h
  | StopTracing
  | ProfilingStop 'h

text \<open>\<^verbatim>\<open>RunningState\<close> (lines 61-71): one handle per signal, or \<^verbatim>\<open>null\<close>.\<close>

record 'h RunningState =
  metrics :: "'h option"
  profiling :: "'h option"
  tracing :: "'h option"

text \<open>
  The process: the singleton \<^verbatim>\<open>running\<close>, and a record of the calls made so far. The
  record is not a variable of the program; it is what the statements about order and
  about "nothing was started" are read from.
\<close>

record ('h, 'i) process =
  running :: "'h RunningState"
  effects :: "('h, 'i) effect list"

definition noHandles :: "'h RunningState" where
  "noHandles = \<lparr>metrics = None, profiling = None, tracing = None\<rparr>"

definition call :: "('h, 'i) effect \<Rightarrow> ('h, 'i) process \<Rightarrow> ('h, 'i) process" where
  "call e s = s\<lparr>effects := effects s @ [e]\<rparr>"

section \<open>The coordinator\<close>

text \<open>\<^verbatim>\<open>isSignalEnabled\<close> (lines 73-79): \<^verbatim>\<open>option ?? parseEnvBooleanString(...) ?? def\<close>.\<close>

definition isSignalEnabled ::
  "(string \<Rightarrow> string option) \<Rightarrow> jsval \<Rightarrow> string \<Rightarrow> bool \<Rightarrow> jsval" where
  "isSignalEnabled environ option envVar def =
     (if \<not> nullish option then option
      else case parseEnvBooleanString (getNonEmptyEnvVar environ envVar) of
             Some b \<Rightarrow> JBool b
           | None \<Rightarrow> JBool def)"

text \<open>Line 85: \<^verbatim>\<open>const { metrics, profiling, tracing, ...restOptions } = options\<close>.\<close>

definition restOptions :: "object \<Rightarrow> object" where
  "restOptions options =
     filter (\<lambda>p. fst p \<notin> set [''metrics'', ''profiling'', ''tracing'']) options"

text \<open>Lines 94-96: the resolved log level.\<close>

definition logLevel :: "('h, 'i) collaborators \<Rightarrow> object \<Rightarrow> DiagLogLevel" where
  "logLevel c options =
     (if truthy (get options ''logLevel'')
      then toDiagLogLevel c (get options ''logLevel'')
      else parseLogLevel c (getNonEmptyEnvVar (env c) ''OTEL_LOG_LEVEL''))"

text \<open>Lines 98-100.\<close>

definition installLogger ::
  "('h, 'i) collaborators \<Rightarrow> object \<Rightarrow> ('h, 'i) process \<Rightarrow> ('h, 'i) process" where
  "installLogger c options s =
     (if logLevel c options \<noteq> NONE then call (SetConsoleLogger (logLevel c options)) s
      else s)"

text \<open>The option bags of lines 104-107, 121 and 133.\<close>

definition profilingOptions :: "('h, 'i) collaborators \<Rightarrow> object \<Rightarrow> object" where
  "profilingOptions c options =
     objectAssign (pick (restOptions options) (allowedProfilingOptions c))
       (get options ''profiling'')"

definition tracingOptions :: "('h, 'i) collaborators \<Rightarrow> object \<Rightarrow> object" where
  "tracingOptions c options =
     objectAssign (pick (restOptions options) (allowedTracingOptions c))
       (get options ''tracing'')"

definition metricsOptions :: "('h, 'i) collaborators \<Rightarrow> object \<Rightarrow> object" where
  "metricsOptions c options =
     objectAssign (pick (restOptions options) (allowedMetricsOptions c))
       (get options ''metrics'')"

text \<open>The three enablement decisions (the conditions of lines 103, 119 and 125-131).\<close>

definition profilingEnabled :: "('h, 'i) collaborators \<Rightarrow> object \<Rightarrow> bool" where
  "profilingEnabled c options =
     truthy (isSignalEnabled (env c) (get options ''profiling'') ''SPLUNK_PROFILER_ENABLED'' False)"

definition tracingEnabled :: "('h, 'i) collaborators \<Rightarrow> object \<Rightarrow> bool" where
  "tracingEnabled c options =
     truthy (isSignalEnabled (env c) (get options ''tracing'') ''SPLUNK_TRACING_ENABLED'' True)"

definition metricsEnabled :: "('h, 'i) collaborators \<Rightarrow> object \<Rightarrow> bool \<Rightarrow> bool" where
  "metricsEnabled c options metricsEnabledByDefault =
     truthy (isSignalEnabled (env c) (get options ''metrics'') ''SPLUNK_METRICS_ENABLED''
               metricsEnabledByDefault)"

text \<open>
  Lines 102-117. The result is \<^verbatim>\<open>metricsEnabledByDefault\<close>, or the error thrown by
  \<^verbatim>\<open>startProfiling\<close>; the call is recorded before it returns or throws.
\<close>

definition profilingBlock ::
  "('h, 'i) collaborators \<Rightarrow> object \<Rightarrow> ('h, 'i) process \<Rightarrow> (error + bool) \<times> ('h, 'i) process" where
  "profilingBlock c options s =
     (if profilingEnabled c options
      then
        (case startProfiling c (profilingOptions c options) of
           Inl failure \<Rightarrow> (Inl (SubsystemFailure failure), call (StartProfiling (profilingOptions c options)) s)
         | Inr h \<Rightarrow>
             (Inr (truthy (get (setDefaultProfilingOptions c (profilingOptions c options))
                             ''memoryProfilingEnabled'')),
              (call (StartProfiling (profilingOptions c options)) s)
                \<lparr>running := (running s)\<lparr>profiling := Some h\<rparr>\<rparr>))
      else (Inr False, s))"

text \<open>Lines 119-123.\<close>

definition tracingBlock ::
  "('h, 'i) collaborators \<Rightarrow> object \<Rightarrow> ('h, 'i) process \<Rightarrow> (error + unit) \<times> ('h, 'i) process" where
  "tracingBlock c options s =
     (if tracingEnabled c options
      then
        (case startTracing c (tracingOptions c options) of
           Inl failure \<Rightarrow> (Inl (SubsystemFailure failure), call (StartTracing (tracingOptions c options)) s)
         | Inr h \<Rightarrow>
             (Inr (),
              (call (StartTracing (tracingOptions c options)) s)
                \<lparr>running := (running s)\<lparr>tracing := Some h\<rparr>\<rparr>))
      else (Inr (), s))"

text \<open>Lines 125-135.\<close>

definition metricsBlock ::
  "('h, 'i) collaborators \<Rightarrow> object \<Rightarrow> bool \<Rightarrow> ('h, 'i) process \<Rightarrow>
     (error + unit) \<times> ('h, 'i) process" where
  "metricsBlock c options metricsEnabledByDefault s =
     (if metricsEnabled c options metricsEnabledByDefault
      then
        (case startMetrics c (metricsOptions c options) of
           Inl failure \<Rightarrow> (Inl (SubsystemFailure failure), call (StartMetrics (metricsOptions c options)) s)
         | Inr h \<Rightarrow>
             (Inr (),
              (call (StartMetrics (metricsOptions c options)) s)
                \<lparr>running := (running s)\<lparr>metrics := Some h\<rparr>\<rparr>))
      else (Inr (), s))"

text \<open>Lines 137-145.\<close>

definition chosenMeterProvider :: "('h, 'i) collaborators \<Rightarrow> meterProvider" where
  "chosenMeterProvider c =
     (if getEnvBoolean c ''SPLUNK_INSTRUMENTATION_METRICS_ENABLED'' False
      then ApiMeterProvider else NoopMeterProvider)"

definition propagateMeterProvider ::
  "('h, 'i) collaborators \<Rightarrow> ('h, 'i) process \<Rightarrow> ('h, 'i) process" where
  "propagateMeterProvider c s =
     foldl (\<lambda>t instrumentation. call (SetMeterProvider instrumentation (chosenMeterProvider c)) t)
       s (getLoadedInstrumentations c)"

text \<open>
  \<^verbatim>\<open>start\<close> (lines 81-146). The result pairs what the call throws (\<open>Inl\<close>) or its normal
  return (\<open>Inr\<close>) with the process state it leaves behind.
\<close>

definition start ::
  "('h, 'i) collaborators \<Rightarrow> object \<Rightarrow> ('h, 'i) process \<Rightarrow> (error + unit) \<times> ('h, 'i) process" where
  "start c options s =
     (if metrics (running s) \<noteq> None \<or> profiling (running s) \<noteq> None \<or> tracing (running s) \<noteq> None
      then (Inl AlreadyStarted, s)
      else
        case assertNoExtraneousProperties (restOptions options)
               [''accessToken'', ''endpoint'', ''serviceName'', ''logLevel''] of
          Inl e \<Rightarrow> (Inl e, s)
        | Inr u \<Rightarrow>
            (case profilingBlock c options (installLogger c options s) of
               (Inl e, s1) \<Rightarrow> (Inl e, s1)
             | (Inr metricsEnabledByDefault, s1) \<Rightarrow>
                 (case tracingBlock c options s1 of
                    (Inl e, s2) \<Rightarrow> (Inl e, s2)
                  | (Inr u, s2) \<Rightarrow>
                      (case metricsBlock c options metricsEnabledByDefault s2 of
                         (Inl e, s3) \<Rightarrow> (Inl e, s3)
                       | (Inr u, s3) \<Rightarrow> (Inr (), propagateMeterProvider c s3)))))"

text \<open>
  \<^verbatim>\<open>stop\<close> (lines 162-186). The body has no \<^verbatim>\<open>await\<close>, so it runs to its \<^verbatim>\<open>return\<close> within
  the call: the result pairs the completion of the returned promise with the state at
  that moment. The executor of the profiling promise runs inside \<^verbatim>\<open>new Promise\<close>, before
  the handle is cleared, and a throw of \<^verbatim>\<open>running.profiling.stop()\<close> rejects that promise.
\<close>

definition stopMetricsBlock ::
  "('h, 'i) collaborators \<Rightarrow> ('h, 'i) process \<Rightarrow> completion list \<times> ('h, 'i) process" where
  "stopMetricsBlock c s =
     (case metrics (running s) of
        Some h \<Rightarrow> ([metricsStop c h], (call (MetricsStop h) s)\<lparr>running := (running s)\<lparr>metrics := None\<rparr>\<rparr>)
      | None \<Rightarrow> ([], s))"

definition stopTracingBlock ::
  "('h, 'i) collaborators \<Rightarrow> ('h, 'i) process \<Rightarrow> completion list \<times> ('h, 'i) process" where
  "stopTracingBlock c s =
     (case tracing (running s) of
        Some h \<Rightarrow> ([stopTracing c], (call StopTracing s)\<lparr>running := (running s)\<lparr>tracing := None\<rparr>\<rparr>)
      | None \<Rightarrow> ([], s))"

definition stopProfilingBlock ::
  "('h, 'i) collaborators \<Rightarrow> ('h, 'i) process \<Rightarrow> completion list \<times> ('h, 'i) process" where
  "stopProfilingBlock c s =
     (case profiling (running s) of
        Some h \<Rightarrow>
          ([case profilingStop c h of Inl e \<Rightarrow> Rejected | Inr u \<Rightarrow> Fulfilled],
           (call (ProfilingStop h) s)\<lparr>running := (running s)\<lparr>profiling := None\<rparr>\<rparr>)
      | None \<Rightarrow> ([], s))"

definition stop ::
  "('h, 'i) collaborators \<Rightarrow> ('h, 'i) process \<Rightarrow> completion \<times> ('h, 'i) process" where
  "stop c s =
     (case stopMetricsBlock c s of
        (p1, s1) \<Rightarrow>
          (case stopTracingBlock c s1 of
             (p2, s2) \<Rightarrow>
               (case stopProfilingBlock c s2 of
                  (p3, s3) \<Rightarrow> (promiseAll (p1 @ p2 @ p3), s3))))"

section \<open>Derived notions used in the statements\<close>

text \<open>
  The value of the local variable \<^verbatim>\<open>metricsEnabledByDefault\<close> when line 125 is reached:
  it is raised at line 115 only, inside the profiling branch.
\<close>

definition metricsEnabledByDefault :: "('h, 'i) collaborators \<Rightarrow> object \<Rightarrow> bool" where
  "metricsEnabledByDefault c options =
     (profilingEnabled c options \<and>
      truthy (get (setDefaultProfilingOptions c (profilingOptions c options))
                ''memoryProfilingEnabled''))"

text \<open>The handle a subsystem start returned, if it returned.\<close>

definition handleOf :: "string + 'h \<Rightarrow> 'h option" where
  "handleOf r = (case r of Inl e \<Rightarrow> None | Inr h \<Rightarrow> Some h)"

fun isSubsystemStart :: "('h, 'i) effect \<Rightarrow> bool" where
  "isSubsystemStart (StartProfiling b) = True"
| "isSubsystemStart (StartTracing b) = True"
| "isSubsystemStart (StartMetrics b) = True"
| "isSubsystemStart e = False"

fun isLoggerCall :: "('h, 'i) effect \<Rightarrow> bool" where
  "isLoggerCall (SetConsoleLogger l) = True"
| "isLoggerCall e = False"

text \<open>The calls of one \<^verbatim>\<open>start\<close> that runs to its end, by phase.\<close>

definition loggerCalls :: "('h, 'i) collaborators \<Rightarrow> object \<Rightarrow> ('h, 'i) effect list" where
  "loggerCalls c options =
     (if logLevel c options = NONE then [] else [SetConsoleLogger (logLevel c options)])"

definition subsystemStarts :: "('h, 'i) collaborators \<Rightarrow> object \<Rightarrow> ('h, 'i) effect list" where
  "subsystemStarts c options =
     (if profilingEnabled c options then [StartProfiling (profilingOptions c options)] else []) @
     (if tracingEnabled c options then [StartTracing (tracingOptions c options)] else []) @
     (if metricsEnabled c options (metricsEnabledByDefault c options)
      then [StartMetrics (metricsOptions c options)] else [])"

definition meterProviderInjections :: "('h, 'i) collaborators \<Rightarrow> ('h, 'i) effect list" where
  "meterProviderInjections c =
     map (\<lambda>i. SetMeterProvider i (chosenMeterProvider c)) (getLoadedInstrumentations c)"

section \<open>A concrete deployment\<close>

text \<open>
  Collaborators, option objects and process states on which the theorems below are
  instantiated. Handles and instrumentations are named by strings. No environment
  variable is set in \<open>demo\<close>; \<open>demoFlags\<close> sets the three signal flags, each against the
  hard default of its signal.
\<close>

definition demo :: "(string, string) collaborators" where
  "demo = \<lparr>
     env = (\<lambda>k. None),
     toDiagLogLevel = (\<lambda>v. if v = JString ''debug'' then DEBUG
                           else if v = JString ''none'' then NONE else INFO),
     parseLogLevel = (\<lambda>v. case v of None \<Rightarrow> NONE | Some l \<Rightarrow> WARN),
     getEnvBoolean = (\<lambda>k d. d),
     allowedProfilingOptions = [''endpoint'', ''serviceName'', ''memoryProfilingEnabled''],
     allowedTracingOptions = [''accessToken'', ''endpoint'', ''serviceName''],
     allowedMetricsOptions = [''accessToken'', ''endpoint'', ''serviceName''],
     startProfiling = (\<lambda>b. Inr ''profiling-handle''),
     setDefaultProfilingOptions =
       (\<lambda>b. put ''memoryProfilingEnabled'' (JBool (truthy (get b ''memoryProfilingEnabled''))) b),
     startTracing = (\<lambda>b. Inr ''tracing-handle''),
     startMetrics = (\<lambda>b. Inr ''metrics-handle''),
     getLoadedInstrumentations = [''http'', ''express''],
     metricsStop = (\<lambda>h. Rejected),
     stopTracing = Fulfilled,
     profilingStop = (\<lambda>h. Inr ())
   \<rparr>"

definition demoFlags :: "(string, string) collaborators" where
  "demoFlags =
     demo\<lparr>env := (\<lambda>k. if k = ''SPLUNK_TRACING_ENABLED'' then Some ''false''
                       else if k = ''SPLUNK_PROFILER_ENABLED'' then Some ''true''
                       else if k = ''SPLUNK_METRICS_ENABLED'' then Some ''True''
                       else None)\<rparr>"

definition fresh :: "(string, string) process" where
  "fresh = \<lparr>running = noHandles, effects = []\<rparr>"

definition busy :: "(string, string) process" where
  "busy = \<lparr>running = \<lparr>metrics = None, profiling = None, tracing = Some ''tracing-handle''\<rparr>,
            effects = []\<rparr>"

definition identityOptions :: object where
  "identityOptions =
     [(''accessToken'', JString ''t''), (''endpoint'', JString ''e''),
      (''serviceName'', JString ''s'')]"

definition fullOptions :: object where
  "fullOptions =
     [(''accessToken'', JString ''t''), (''endpoint'', JString ''e''),
      (''serviceName'', JString ''s''), (''logLevel'', JString ''debug''),
      (''profiling'', JObject [(''memoryProfilingEnabled'', JBool True)])]"

definition typoOptions :: object where
  "typoOptions = [(''servicName'', JString ''s''), (''logLevel'', JString ''debug'')]"

definition started :: "(string, string) process" where
  "started =
     \<lparr>running = \<lparr>metrics = Some ''metrics-handle'', profiling = Some ''profiling-handle'',
                  tracing = Some ''tracing-handle''\<rparr>,
      effects =
        [SetConsoleLogger DEBUG,
         StartProfiling [(''endpoint'', JString ''e''), (''serviceName'', JString ''s''),
                         (''memoryProfilingEnabled'', JBool True)],
         StartTracing [(''accessToken'', JString ''t''), (''endpoint'', JString ''e''),
                       (''serviceName'', JString ''s'')],
         StartMetrics [(''accessToken'', JString ''t''), (''endpoint'', JString ''e''),
                       (''serviceName'', JString ''s'')],
         SetMeterProvider ''http'' NoopMeterProvider,
         SetMeterProvider ''express'' NoopMeterProvider]\<rparr>"

definition tracingOnly :: "(string, string) process" where
  "tracingOnly =
     \<lparr>running = \<lparr>metrics = None, profiling = None, tracing = Some ''tracing-handle''\<rparr>,
      effects =
        [StartTracing [(''accessToken'', JString ''t''), (''endpoint'', JString ''e''),
                       (''serviceName'', JString ''s'')],
         SetMeterProvider ''http'' NoopMeterProvider,
         SetMeterProvider ''express'' NoopMeterProvider]\<rparr>"

definition stopped :: "(string, string) process" where
  "stopped =
     \<lparr>running = noHandles,
      effects = effects started @
        [MetricsStop ''metrics-handle'', StopTracing, ProfilingStop ''profiling-handle'']\<rparr>"

definition demoInstrumented :: "(string, string) collaborators" where
  "demoInstrumented =
     demo\<lparr>getEnvBoolean := (\<lambda>k d. if k = ''SPLUNK_INSTRUMENTATION_METRICS_ENABLED'' then True else d)\<rparr>"

definition injectedOnly :: "(string, string) process" where
  "injectedOnly =
     \<lparr>running = noHandles,
      effects = [SetMeterProvider ''http'' ApiMeterProvider,
                 SetMeterProvider ''express'' ApiMeterProvider]\<rparr>"

section \<open>How one call changes the process\<close>

lemma foldl_call_effects:
  "effects (foldl (\<lambda>t i. call (f i) t) s xs) = effects s @ map f xs"
  by (induction xs arbitrary: s) (simp_all add: call_def)

lemma foldl_call_running:
  "running (foldl (\<lambda>t i. call (f i) t) s xs) = running s"
  by (induction xs arbitrary: s) (simp_all add: call_def)

lemma propagate_effects:
  "effects (propagateMeterProvider c s) =
     effects s @ map (\<lambda>i. SetMeterProvider i (chosenMeterProvider c)) (getLoadedInstrumentations c)"
  unfolding propagateMeterProvider_def by (rule foldl_call_effects)

lemma propagate_running: "running (propagateMeterProvider c s) = running s"
  unfolding propagateMeterProvider_def by (rule foldl_call_running)


lemma installLogger_effects:
  "effects (installLogger c options s) =
     effects s @ (if logLevel c options = NONE then [] else [SetConsoleLogger (logLevel c options)])"
  by (simp add: installLogger_def call_def)

lemma installLogger_running: "running (installLogger c options s) = running s"
  by (simp add: installLogger_def call_def)

lemma profilingBlock_effects:
  "effects (snd (profilingBlock c options s)) =
     effects s @ (if profilingEnabled c options then [StartProfiling (profilingOptions c options)] else [])"
  by (simp add: profilingBlock_def call_def split: sum.splits)

lemma tracingBlock_effects:
  "effects (snd (tracingBlock c options s)) =
     effects s @ (if tracingEnabled c options then [StartTracing (tracingOptions c options)] else [])"
  by (simp add: tracingBlock_def call_def split: sum.splits)

lemma metricsBlock_effects:
  "effects (snd (metricsBlock c options d s)) =
     effects s @ (if metricsEnabled c options d then [StartMetrics (metricsOptions c options)] else [])"
  by (simp add: metricsBlock_def call_def split: sum.splits)

lemma profilingBlock_Inr:
  assumes "profilingBlock c options s = (Inr flag, s1)"
  shows "flag = metricsEnabledByDefault c options"
    and "running s1 = (running s)\<lparr>profiling :=
           if profilingEnabled c options then handleOf (startProfiling c (profilingOptions c options))
           else profiling (running s)\<rparr>"
    and "profilingEnabled c options \<Longrightarrow> \<exists>h. startProfiling c (profilingOptions c options) = Inr h"
  using assms
  by (auto simp: profilingBlock_def metricsEnabledByDefault_def handleOf_def call_def
      split: if_splits sum.splits)

lemma tracingBlock_Inr:
  assumes "tracingBlock c options s = (Inr u, s1)"
  shows "running s1 = (running s)\<lparr>tracing :=
           if tracingEnabled c options then handleOf (startTracing c (tracingOptions c options))
           else tracing (running s)\<rparr>"
    and "tracingEnabled c options \<Longrightarrow> \<exists>h. startTracing c (tracingOptions c options) = Inr h"
  using assms
  by (auto simp: tracingBlock_def handleOf_def call_def split: if_splits sum.splits)

lemma metricsBlock_Inr:
  assumes "metricsBlock c options d s = (Inr u, s1)"
  shows "running s1 = (running s)\<lparr>metrics :=
           if metricsEnabled c options d then handleOf (startMetrics c (metricsOptions c options))
           else metrics (running s)\<rparr>"
    and "metricsEnabled c options d \<Longrightarrow> \<exists>h. startMetrics c (metricsOptions c options) = Inr h"
  using assms
  by (auto simp: metricsBlock_def handleOf_def call_def split: if_splits sum.splits)

lemma start_Inr_blocks:
  assumes "start c options s = (Inr (), s')"
  obtains s1 s2 s3 where
    "metrics (running s) = None" "profiling (running s) = None" "tracing (running s) = None"
    "assertNoExtraneousProperties (restOptions options)
       [''accessToken'', ''endpoint'', ''serviceName'', ''logLevel''] = Inr ()"
    "profilingBlock c options (installLogger c options s) = (Inr (metricsEnabledByDefault c options), s1)"
    "tracingBlock c options s1 = (Inr (), s2)"
    "metricsBlock c options (metricsEnabledByDefault c options) s2 = (Inr (), s3)"
    "s' = propagateMeterProvider c s3"
  using assms
  by (auto simp: start_def split: if_splits sum.splits prod.splits dest: profilingBlock_Inr(1))


lemma start_Inr_effects:
  assumes "start c options s = (Inr (), s')"
  shows "effects s' =
     effects s @ loggerCalls c options @ subsystemStarts c options @ meterProviderInjections c"
proof -
  from assms obtain s1 s2 s3 where
    b1: "profilingBlock c options (installLogger c options s) = (Inr (metricsEnabledByDefault c options), s1)"
    and b2: "tracingBlock c options s1 = (Inr (), s2)"
    and b3: "metricsBlock c options (metricsEnabledByDefault c options) s2 = (Inr (), s3)"
    and fin: "s' = propagateMeterProvider c s3"
    by (rule start_Inr_blocks)
  have e1: "effects s1 = effects (installLogger c options s) @
      (if profilingEnabled c options then [StartProfiling (profilingOptions c options)] else [])"
    using profilingBlock_effects [of c options "installLogger c options s"] b1 by simp
  have e2: "effects s2 = effects s1 @
      (if tracingEnabled c options then [StartTracing (tracingOptions c options)] else [])"
    using tracingBlock_effects [of c options s1] b2 by simp
  have e3: "effects s3 = effects s2 @
      (if metricsEnabled c options (metricsEnabledByDefault c options)
       then [StartMetrics (metricsOptions c options)] else [])"
    using metricsBlock_effects [of c options "metricsEnabledByDefault c options" s2] b3 by simp
  show ?thesis
    unfolding fin propagate_effects e3 e2 e1 installLogger_effects
      loggerCalls_def subsystemStarts_def meterProviderInjections_def
    by simp
qed

lemma start_Inr_running:
  assumes "start c options s = (Inr (), s')"
  shows "running s' =
     \<lparr>metrics = (if metricsEnabled c options (metricsEnabledByDefault c options)
                 then handleOf (startMetrics c (metricsOptions c options)) else None),
      profiling = (if profilingEnabled c options
                   then handleOf (startProfiling c (profilingOptions c options)) else None),
      tracing = (if tracingEnabled c options
                 then handleOf (startTracing c (tracingOptions c options)) else None)\<rparr>"
proof -
  from assms obtain s1 s2 s3 where
    g: "metrics (running s) = None" "profiling (running s) = None" "tracing (running s) = None"
    and b1: "profilingBlock c options (installLogger c options s) = (Inr (metricsEnabledByDefault c options), s1)"
    and b2: "tracingBlock c options s1 = (Inr (), s2)"
    and b3: "metricsBlock c options (metricsEnabledByDefault c options) s2 = (Inr (), s3)"
    and fin: "s' = propagateMeterProvider c s3"
    by (rule start_Inr_blocks)
  show ?thesis
    unfolding fin propagate_running
      metricsBlock_Inr(1) [OF b3] tracingBlock_Inr(1) [OF b2] profilingBlock_Inr(2) [OF b1]
      installLogger_running
    using g by simp
qed

lemma start_Inr_handles:
  assumes "start c options s = (Inr (), s')"
  shows "profilingEnabled c options \<Longrightarrow> \<exists>h. startProfiling c (profilingOptions c options) = Inr h"
    and "tracingEnabled c options \<Longrightarrow> \<exists>h. startTracing c (tracingOptions c options) = Inr h"
    and "metricsEnabled c options (metricsEnabledByDefault c options)
         \<Longrightarrow> \<exists>h. startMetrics c (metricsOptions c options) = Inr h"
proof -
  from assms obtain s1 s2 s3 where
    b1: "profilingBlock c options (installLogger c options s) = (Inr (metricsEnabledByDefault c options), s1)"
    and b2: "tracingBlock c options s1 = (Inr (), s2)"
    and b3: "metricsBlock c options (metricsEnabledByDefault c options) s2 = (Inr (), s3)"
    by (rule start_Inr_blocks)
  show "profilingEnabled c options \<Longrightarrow> \<exists>h. startProfiling c (profilingOptions c options) = Inr h"
    by (rule profilingBlock_Inr(3) [OF b1])
  show "tracingEnabled c options \<Longrightarrow> \<exists>h. startTracing c (tracingOptions c options) = Inr h"
    by (rule tracingBlock_Inr(2) [OF b2])
  show "metricsEnabled c options (metricsEnabledByDefault c options)
         \<Longrightarrow> \<exists>h. startMetrics c (metricsOptions c options) = Inr h"
    by (rule metricsBlock_Inr(2) [OF b3])
qed

text \<open>Whatever the outcome, once both checks pass the logger call comes first.\<close>

lemma start_checked_effects:
  assumes "metrics (running s) = None" "profiling (running s) = None" "tracing (running s) = None"
    and "assertNoExtraneousProperties (restOptions options)
           [''accessToken'', ''endpoint'', ''serviceName'', ''logLevel''] = Inr ()"
  shows "\<exists>rest. effects (snd (start c options s)) = effects s @ loggerCalls c options @ rest
           \<and> filter isLoggerCall rest = []"
proof -
  let ?s0 = "installLogger c options s"
  obtain r1 s1 where b1: "profilingBlock c options ?s0 = (r1, s1)" by (cases "profilingBlock c options ?s0")
  have e1: "effects s1 = effects s @ loggerCalls c options @
      (if profilingEnabled c options then [StartProfiling (profilingOptions c options)] else [])"
    using profilingBlock_effects [of c options ?s0] b1
    by (simp add: installLogger_effects loggerCalls_def)
  show ?thesis
  proof (cases r1)
    case (Inl e)
    then have "snd (start c options s) = s1" using assms b1 by (simp add: start_def)
    with e1 show ?thesis by auto
  next
    case (Inr flag)
    obtain r2 s2 where b2: "tracingBlock c options s1 = (r2, s2)" by (cases "tracingBlock c options s1")
    have e2: "effects s2 = effects s1 @
        (if tracingEnabled c options then [StartTracing (tracingOptions c options)] else [])"
      using tracingBlock_effects [of c options s1] b2 by simp
    show ?thesis
    proof (cases r2)
      case (Inl e)
      then have "snd (start c options s) = s2" using assms b1 b2 Inr by (simp add: start_def)
      with e1 e2 show ?thesis by auto
    next
      case (Inr u)
      note r2 = this
      obtain r3 s3 where b3: "metricsBlock c options flag s2 = (r3, s3)"
        by (cases "metricsBlock c options flag s2")
      have e3: "effects s3 = effects s2 @
          (if metricsEnabled c options flag then [StartMetrics (metricsOptions c options)] else [])"
        using metricsBlock_effects [of c options flag s2] b3 by simp
      show ?thesis
      proof (cases r3)
        case (Inl e)
        then have "snd (start c options s) = s3"
          using assms b1 b2 b3 \<open>r1 = Inr flag\<close> r2 by (simp add: start_def)
        with e1 e2 e3 show ?thesis by auto
      next
        case (Inr v)
        then have "snd (start c options s) = propagateMeterProvider c s3"
          using assms b1 b2 b3 \<open>r1 = Inr flag\<close> r2 by (simp add: start_def)
        with e1 e2 e3 show ?thesis
          by (auto simp: propagate_effects comp_def)
      qed
    qed
  qed
qed

lemma parse_unset: "parseEnvBooleanString (getNonEmptyEnvVar environ envVar) = None"
  if "environ envVar = None"
  using that by (simp add: parseEnvBooleanString_def getNonEmptyEnvVar_def)

lemma isSignalEnabled_layers:
  "\<not> nullish option \<longrightarrow> isSignalEnabled environ option envVar def = option"
  "truthy (isSignalEnabled environ (JBool b) envVar def) = b"
  "truthy (isSignalEnabled environ (JObject fs) envVar def)"
  "nullish option \<and> parseEnvBooleanString (getNonEmptyEnvVar environ envVar) = Some flag
     \<longrightarrow> isSignalEnabled environ option envVar def = JBool flag"
  "nullish option \<and> parseEnvBooleanString (getNonEmptyEnvVar environ envVar) = None
     \<longrightarrow> isSignalEnabled environ option envVar def = JBool def"
  "nullish option \<and> environ envVar = None
     \<longrightarrow> isSignalEnabled environ option envVar def = JBool def"
  by (simp_all add: isSignalEnabled_def parse_unset)

lemma tracingEnabled_layers:
  "tracingEnabled c options =
     (if \<not> nullish (get options ''tracing'') then truthy (get options ''tracing'')
      else case parseEnvBooleanString (getNonEmptyEnvVar (env c) ''SPLUNK_TRACING_ENABLED'') of
             Some flag \<Rightarrow> flag
           | None \<Rightarrow> True)"
  by (simp add: tracingEnabled_def isSignalEnabled_def split: option.splits)

lemma profilingEnabled_layers:
  "profilingEnabled c options =
     (if \<not> nullish (get options ''profiling'') then truthy (get options ''profiling'')
      else case parseEnvBooleanString (getNonEmptyEnvVar (env c) ''SPLUNK_PROFILER_ENABLED'') of
             Some flag \<Rightarrow> flag
           | None \<Rightarrow> False)"
  by (simp add: profilingEnabled_def isSignalEnabled_def split: option.splits)

lemma metricsEnabled_layers:
  "metricsEnabled c options metricsDefault =
     (if \<not> nullish (get options ''metrics'') then truthy (get options ''metrics'')
      else case parseEnvBooleanString (getNonEmptyEnvVar (env c) ''SPLUNK_METRICS_ENABLED'') of
             Some flag \<Rightarrow> flag
           | None \<Rightarrow> metricsDefault)"
  by (simp add: metricsEnabled_def isSignalEnabled_def split: option.splits)

lemma signals_silent:
  "nullish (get options ''tracing'') \<and> env c ''SPLUNK_TRACING_ENABLED'' = None
     \<longrightarrow> tracingEnabled c options"
  "nullish (get options ''profiling'') \<and> env c ''SPLUNK_PROFILER_ENABLED'' = None
     \<longrightarrow> \<not> profilingEnabled c options"
  "nullish (get options ''metrics'') \<and> env c ''SPLUNK_METRICS_ENABLED'' = None
     \<longrightarrow> metricsEnabled c options metricsDefault = metricsDefault"
  "get options ''tracing'' = JBool False \<longrightarrow> \<not> tracingEnabled c options"
  "get options ''profiling'' = JBool False \<longrightarrow> \<not> profilingEnabled c options"
  "get options ''metrics'' = JBool False \<longrightarrow> \<not> metricsEnabled c options metricsDefault"
  by (simp_all add: tracingEnabled_layers profilingEnabled_layers metricsEnabled_layers parse_unset)

lemma signals_flagged:
  "nullish (get options ''tracing'')
     \<and> parseEnvBooleanString (getNonEmptyEnvVar (env c) ''SPLUNK_TRACING_ENABLED'') = Some flag
     \<longrightarrow> tracingEnabled c options = flag"
  "nullish (get options ''profiling'')
     \<and> parseEnvBooleanString (getNonEmptyEnvVar (env c) ''SPLUNK_PROFILER_ENABLED'') = Some flag
     \<longrightarrow> profilingEnabled c options = flag"
  "nullish (get options ''metrics'')
     \<and> parseEnvBooleanString (getNonEmptyEnvVar (env c) ''SPLUNK_METRICS_ENABLED'') = Some flag
     \<longrightarrow> metricsEnabled c options metricsDefault = flag"
  by (simp_all add: tracingEnabled_layers profilingEnabled_layers metricsEnabled_layers)

lemma metricsEnabled_unconfigured:
  assumes "nullish (get options ''metrics'')" and "env c ''SPLUNK_METRICS_ENABLED'' = None"
  shows "metricsEnabled c options d = d"
  using assms by (simp add: metricsEnabled_def isSignalEnabled_def parse_unset)

lemma profilingBlock_disabled:
  "\<not> profilingEnabled c options \<Longrightarrow> profilingBlock c options s = (Inr False, s)"
  by (simp add: profilingBlock_def)

lemma stop_effects:
  "effects (snd (stop c s)) = effects s @
     (case metrics (running s) of Some h \<Rightarrow> [MetricsStop h] | None \<Rightarrow> []) @
     (case tracing (running s) of Some h \<Rightarrow> [StopTracing] | None \<Rightarrow> []) @
     (case profiling (running s) of Some h \<Rightarrow> [ProfilingStop h] | None \<Rightarrow> [])"
  by (simp add: stop_def stopMetricsBlock_def stopTracingBlock_def stopProfilingBlock_def call_def
      split: option.splits)

lemma stop_running: "running (snd (stop c s)) = noHandles"
  by (simp add: stop_def stopMetricsBlock_def stopTracingBlock_def stopProfilingBlock_def call_def
      noHandles_def split: option.splits)

lemma stop_rejects:
  assumes "(\<exists>h. metrics (running s) = Some h \<and> metricsStop c h = Rejected)
     \<or> (tracing (running s) \<noteq> None \<and> stopTracing c = Rejected)
     \<or> (\<exists>h e. profiling (running s) = Some h \<and> profilingStop c h = Inl e)"
  shows "fst (stop c s) = Rejected"
  using assms
  by (auto simp: stop_def stopMetricsBlock_def stopTracingBlock_def stopProfilingBlock_def call_def
      promiseAll_def split: option.splits)

lemma start_outcome_depends_on_running:
  assumes "running s = running t"
  shows "fst (start c options s) = fst (start c options t)"
  using assms
  by (simp add: start_def profilingBlock_def tracingBlock_def metricsBlock_def
      split: sum.splits)

section \<open>Evaluation on the concrete deployment\<close>

lemmas eval_defs =
  start_def stop_def profilingBlock_def tracingBlock_def metricsBlock_def installLogger_def
  propagateMeterProvider_def call_def chosenMeterProvider_def logLevel_def
  profilingEnabled_def tracingEnabled_def metricsEnabled_def isSignalEnabled_def
  profilingOptions_def tracingOptions_def metricsOptions_def objectAssign_def pick_def
  restOptions_def assertNoExtraneousProperties_def keys_def get_def
  getNonEmptyEnvVar_def parseEnvBooleanString_def lowerChar_def
  stopMetricsBlock_def stopTracingBlock_def stopProfilingBlock_def promiseAll_def
  noHandles_def

lemma demo_start_full: "start demo fullOptions fresh = (Inr (), started)"
  by (simp add: eval_defs demo_def fullOptions_def fresh_def started_def)

lemma demo_start_identity: "start demo identityOptions fresh = (Inr (), tracingOnly)"
  by (simp add: eval_defs demo_def identityOptions_def fresh_def tracingOnly_def)

lemma demo_stop_started: "stop demo started = (Rejected, stopped)"
  by (simp add: eval_defs demo_def started_def stopped_def)

lemma demo_restart: "fst (start demo fullOptions \<lparr>running = noHandles, effects = []\<rparr>) = Inr ()"
  using demo_start_full by (simp add: fresh_def)

lemma demo_start_untraced:
  "start demoInstrumented [(''tracing'', JBool False)] fresh = (Inr (), injectedOnly)"
  by (simp add: eval_defs demo_def demoInstrumented_def fresh_def injectedOnly_def)

lemma demo_busy: "start demo fullOptions busy = (Inl AlreadyStarted, busy)"
  by (simp add: start_def busy_def)

lemma demo_typo: "start demo typoOptions fresh = (Inl (UnrecognizedOption [''servicName'']), fresh)"
  by (simp add: fresh_def typoOptions_def start_def noHandles_def
      assertNoExtraneousProperties_def restOptions_def keys_def)

lemma demo_levels:
  "logLevel demo fullOptions = DEBUG" "logLevel demo typoOptions = DEBUG"
  "logLevel demo identityOptions = NONE"
  by (simp_all add: logLevel_def demo_def fullOptions_def typoOptions_def identityOptions_def
      get_def getNonEmptyEnvVar_def)

section \<open>The claims\<close>

text \<open>
  C1. For every options object: if any of the three handles is already present when
  \<^verbatim>\<open>start\<close> is called, the call throws the re-entrant error ("already started") and leaves
  the process exactly as it was: no call reaches a subsystem (the record of calls is
  unchanged) and no handle is changed.
\<close>

theorem start_reentrant_unchanged:
  assumes "metrics (running s) \<noteq> None \<or> profiling (running s) \<noteq> None \<or> tracing (running s) \<noteq> None"
  shows "start c options s = (Inl AlreadyStarted, s)"
  using assms by (simp add: start_def)

text \<open>Instance: a second \<^verbatim>\<open>start\<close> right after a first one that started all three signals.\<close>

theorem start_reentrant_unchanged_witness:
  "start demo fullOptions fresh = (Inr (), started)
   \<and> tracing (running started) = Some ''tracing-handle''
   \<and> start demo fullOptions started = (Inl AlreadyStarted, started)"
  using start_reentrant_unchanged [of started demo fullOptions] demo_start_full
  by (simp add: started_def)

text \<open>
  C2. Take a \<^verbatim>\<open>start\<close> call that returns normally. If profiling resolves to enabled, the
  defaults materialized by \<^verbatim>\<open>setDefaultProfilingOptions\<close> from the very option bag that was
  handed to \<^verbatim>\<open>startProfiling\<close> have memory profiling enabled, the caller gave no \<^verbatim>\<open>metrics\<close>
  option and the metrics flag is unset in the environment, then the profiling block yields
  \<^verbatim>\<open>metricsEnabledByDefault = true\<close>, metrics resolves to enabled under that default, and
  metrics is started: \<^verbatim>\<open>startMetrics\<close> is called once, after the single \<^verbatim>\<open>startProfiling\<close> call
  (there is no second one), and its handle is retained. If profiling resolves to disabled,
  the profiling block leaves the default at \<^verbatim>\<open>false\<close> and changes nothing; with metrics
  unconfigured, metrics then resolves to disabled and is not started.
\<close>

theorem memory_profiling_raises_metrics_default:
  "(start c options s = (Inr (), s')
      \<and> profilingEnabled c options
      \<and> truthy (get (setDefaultProfilingOptions c (profilingOptions c options))
                  ''memoryProfilingEnabled'')
      \<and> nullish (get options ''metrics'')
      \<and> env c ''SPLUNK_METRICS_ENABLED'' = None
     \<longrightarrow> fst (profilingBlock c options (installLogger c options s)) = Inr True
         \<and> metricsEnabled c options True
         \<and> (\<exists>h. startMetrics c (metricsOptions c options) = Inr h
                \<and> metrics (running s') = Some h)
         \<and> filter isSubsystemStart (drop (length (effects s)) (effects s')) =
               [StartProfiling (profilingOptions c options)] @
               (if tracingEnabled c options then [StartTracing (tracingOptions c options)] else []) @
               [StartMetrics (metricsOptions c options)])
   \<and> (\<not> profilingEnabled c options
        \<longrightarrow> profilingBlock c options s = (Inr False, s))
   \<and> (start c options s = (Inr (), s')
        \<and> \<not> profilingEnabled c options
        \<and> nullish (get options ''metrics'')
        \<and> env c ''SPLUNK_METRICS_ENABLED'' = None
       \<longrightarrow> \<not> metricsEnabled c options False
           \<and> metrics (running s') = None
           \<and> filter isSubsystemStart (drop (length (effects s)) (effects s')) =
               (if tracingEnabled c options then [StartTracing (tracingOptions c options)] else []))"
proof (intro conjI impI)
  assume a: "start c options s = (Inr (), s')
      \<and> profilingEnabled c options
      \<and> truthy (get (setDefaultProfilingOptions c (profilingOptions c options))
                  ''memoryProfilingEnabled'')
      \<and> nullish (get options ''metrics'')
      \<and> env c ''SPLUNK_METRICS_ENABLED'' = None"
  then have ok: "start c options s = (Inr (), s')" and raised: "metricsEnabledByDefault c options"
    and pe: "profilingEnabled c options"
    by (simp_all add: metricsEnabledByDefault_def)
  from start_Inr_handles(1) [OF ok pe] raised
  show "fst (profilingBlock c options (installLogger c options s)) = Inr True"
    by (auto simp: profilingBlock_def pe metricsEnabledByDefault_def)
  from a show "metricsEnabled c options True"
    by (simp add: metricsEnabled_unconfigured)
  from a raised have me: "metricsEnabled c options (metricsEnabledByDefault c options)"
    by (simp add: metricsEnabled_unconfigured)
  from start_Inr_handles(3) [OF ok me] obtain h
    where h: "startMetrics c (metricsOptions c options) = Inr h" ..
  with start_Inr_running [OF ok] me
  show "\<exists>h. startMetrics c (metricsOptions c options) = Inr h \<and> metrics (running s') = Some h"
    by (simp add: handleOf_def)
  from start_Inr_effects [OF ok] pe me
  show "filter isSubsystemStart (drop (length (effects s)) (effects s')) =
          [StartProfiling (profilingOptions c options)] @
          (if tracingEnabled c options then [StartTracing (tracingOptions c options)] else []) @
          [StartMetrics (metricsOptions c options)]"
    by (simp add: loggerCalls_def subsystemStarts_def meterProviderInjections_def comp_def)
next
  assume "\<not> profilingEnabled c options"
  then show "profilingBlock c options s = (Inr False, s)" by (rule profilingBlock_disabled)
next
  assume a: "start c options s = (Inr (), s')
        \<and> \<not> profilingEnabled c options
        \<and> nullish (get options ''metrics'')
        \<and> env c ''SPLUNK_METRICS_ENABLED'' = None"
  then have ok: "start c options s = (Inr (), s')" and low: "\<not> metricsEnabledByDefault c options"
    and pe: "\<not> profilingEnabled c options"
    by (simp_all add: metricsEnabledByDefault_def)
  from a show "\<not> metricsEnabled c options False"
    by (simp add: metricsEnabled_unconfigured)
  from a low have me: "\<not> metricsEnabled c options (metricsEnabledByDefault c options)"
    by (simp add: metricsEnabled_unconfigured)
  from start_Inr_running [OF ok] me show "metrics (running s') = None" by simp
  from start_Inr_effects [OF ok] pe me
  show "filter isSubsystemStart (drop (length (effects s)) (effects s')) =
          (if tracingEnabled c options then [StartTracing (tracingOptions c options)] else [])"
    by (simp add: loggerCalls_def subsystemStarts_def meterProviderInjections_def comp_def)
qed

text \<open>Instances: a profiling options object with memory profiling on, and the identity options alone.\<close>

theorem memory_profiling_raises_metrics_default_witness:
  "start demo fullOptions fresh = (Inr (), started)
   \<and> profilingEnabled demo fullOptions
   \<and> truthy (get (setDefaultProfilingOptions demo (profilingOptions demo fullOptions))
               ''memoryProfilingEnabled'')
   \<and> get fullOptions ''metrics'' = JUndefined
   \<and> env demo ''SPLUNK_METRICS_ENABLED'' = None
   \<and> metrics (running started) = Some ''metrics-handle''
   \<and> start demo identityOptions fresh = (Inr (), tracingOnly)
   \<and> \<not> profilingEnabled demo identityOptions
   \<and> get identityOptions ''metrics'' = JUndefined
   \<and> metrics (running tracingOnly) = None"
  using memory_profiling_raises_metrics_default [of demo fullOptions fresh started]
    memory_profiling_raises_metrics_default [of demo identityOptions fresh tracingOnly]
    demo_start_full demo_start_identity
  by (simp add: demo_def fullOptions_def identityOptions_def started_def tracingOnly_def
      profilingEnabled_def isSignalEnabled_def get_def parseEnvBooleanString_def
      getNonEmptyEnvVar_def profilingOptions_def objectAssign_def pick_def restOptions_def)

text \<open>
  C3. Enablement of every signal has three layers, at \<^verbatim>\<open>isSignalEnabled\<close> and at each of
  its three call sites in \<^verbatim>\<open>start\<close> (tracing, profiling, metrics, each with its own
  environment flag). A caller value that is neither \<^verbatim>\<open>null\<close> nor \<^verbatim>\<open>undefined\<close> decides (a
  boolean counts as itself, an object as enabled). Otherwise the signal's environment flag
  decides when it parses as a boolean. Otherwise the default decides: enabled for tracing,
  disabled for profiling, the default handed over by the profiling step for metrics. In
  particular a caller's \<^verbatim>\<open>false\<close> disables the signal whatever the environment says, and
  with caller and environment both silent the hard default applies.
\<close>

theorem isSignalEnabled_precedence:
  "(\<not> nullish option \<longrightarrow> isSignalEnabled environ option envVar def = option)
   \<and> truthy (isSignalEnabled environ (JBool b) envVar def) = b
   \<and> truthy (isSignalEnabled environ (JObject fs) envVar def)
   \<and> (nullish option \<and> parseEnvBooleanString (getNonEmptyEnvVar environ envVar) = Some flag
        \<longrightarrow> isSignalEnabled environ option envVar def = JBool flag)
   \<and> (nullish option \<and> parseEnvBooleanString (getNonEmptyEnvVar environ envVar) = None
        \<longrightarrow> isSignalEnabled environ option envVar def = JBool def)
   \<and> (nullish option \<and> environ envVar = None
        \<longrightarrow> isSignalEnabled environ option envVar def = JBool def)
   \<and> (nullish (get options ''tracing'') \<and> env c ''SPLUNK_TRACING_ENABLED'' = None
        \<longrightarrow> tracingEnabled c options)
   \<and> (nullish (get options ''profiling'') \<and> env c ''SPLUNK_PROFILER_ENABLED'' = None
        \<longrightarrow> \<not> profilingEnabled c options)
   \<and> (nullish (get options ''metrics'') \<and> env c ''SPLUNK_METRICS_ENABLED'' = None
        \<longrightarrow> metricsEnabled c options metricsDefault = metricsDefault)
   \<and> (get options ''tracing'' = JBool False \<longrightarrow> \<not> tracingEnabled c options)
   \<and> (get options ''profiling'' = JBool False \<longrightarrow> \<not> profilingEnabled c options)
   \<and> (get options ''metrics'' = JBool False \<longrightarrow> \<not> metricsEnabled c options metricsDefault)
   \<and> tracingEnabled c options =
        (if \<not> nullish (get options ''tracing'') then truthy (get options ''tracing'')
         else case parseEnvBooleanString (getNonEmptyEnvVar (env c) ''SPLUNK_TRACING_ENABLED'') of
                Some flag \<Rightarrow> flag
              | None \<Rightarrow> True)
   \<and> profilingEnabled c options =
        (if \<not> nullish (get options ''profiling'') then truthy (get options ''profiling'')
         else case parseEnvBooleanString (getNonEmptyEnvVar (env c) ''SPLUNK_PROFILER_ENABLED'') of
                Some flag \<Rightarrow> flag
              | None \<Rightarrow> False)
   \<and> metricsEnabled c options metricsDefault =
        (if \<not> nullish (get options ''metrics'') then truthy (get options ''metrics'')
         else case parseEnvBooleanString (getNonEmptyEnvVar (env c) ''SPLUNK_METRICS_ENABLED'') of
                Some flag \<Rightarrow> flag
              | None \<Rightarrow> metricsDefault)
   \<and> (nullish (get options ''tracing'')
        \<and> parseEnvBooleanString (getNonEmptyEnvVar (env c) ''SPLUNK_TRACING_ENABLED'') = Some flag
        \<longrightarrow> tracingEnabled c options = flag)
   \<and> (nullish (get options ''profiling'')
        \<and> parseEnvBooleanString (getNonEmptyEnvVar (env c) ''SPLUNK_PROFILER_ENABLED'') = Some flag
        \<longrightarrow> profilingEnabled c options = flag)
   \<and> (nullish (get options ''metrics'')
        \<and> parseEnvBooleanString (getNonEmptyEnvVar (env c) ''SPLUNK_METRICS_ENABLED'') = Some flag
        \<longrightarrow> metricsEnabled c options metricsDefault = flag)"
  by (intro conjI isSignalEnabled_layers signals_silent tracingEnabled_layers
      profilingEnabled_layers metricsEnabled_layers signals_flagged)

text \<open>
  Instances. With the three flags set against the hard defaults and the caller silent,
  the flag decides: tracing is disabled, profiling and metrics are enabled. With the same
  flags a caller value decides instead. With nothing set the hard defaults apply.
\<close>

theorem isSignalEnabled_precedence_witness:
  "env demoFlags ''SPLUNK_TRACING_ENABLED'' = Some ''false''
   \<and> parseEnvBooleanString (getNonEmptyEnvVar (env demoFlags) ''SPLUNK_TRACING_ENABLED'') = Some False
   \<and> get identityOptions ''tracing'' = JUndefined
   \<and> \<not> tracingEnabled demoFlags identityOptions
   \<and> env demoFlags ''SPLUNK_PROFILER_ENABLED'' = Some ''true''
   \<and> parseEnvBooleanString (getNonEmptyEnvVar (env demoFlags) ''SPLUNK_PROFILER_ENABLED'') = Some True
   \<and> get identityOptions ''profiling'' = JUndefined
   \<and> profilingEnabled demoFlags identityOptions
   \<and> env demoFlags ''SPLUNK_METRICS_ENABLED'' = Some ''True''
   \<and> parseEnvBooleanString (getNonEmptyEnvVar (env demoFlags) ''SPLUNK_METRICS_ENABLED'') = Some True
   \<and> get identityOptions ''metrics'' = JUndefined
   \<and> metricsEnabled demoFlags identityOptions False
   \<and> get ((''tracing'', JBool True) # identityOptions) ''tracing'' = JBool True
   \<and> tracingEnabled demoFlags ((''tracing'', JBool True) # identityOptions)
   \<and> get ((''profiling'', JBool False) # identityOptions) ''profiling'' = JBool False
   \<and> \<not> profilingEnabled demoFlags ((''profiling'', JBool False) # identityOptions)
   \<and> get ((''metrics'', JBool False) # identityOptions) ''metrics'' = JBool False
   \<and> \<not> metricsEnabled demoFlags ((''metrics'', JBool False) # identityOptions) True
   \<and> get ((''tracing'', JObject []) # identityOptions) ''tracing'' = JObject []
   \<and> tracingEnabled demoFlags ((''tracing'', JObject []) # identityOptions)
   \<and> isSignalEnabled (env demoFlags) JNull ''SPLUNK_TRACING_ENABLED'' True = JBool False
   \<and> env demo ''SPLUNK_TRACING_ENABLED'' = None
   \<and> env demo ''SPLUNK_PROFILER_ENABLED'' = None
   \<and> env demo ''SPLUNK_METRICS_ENABLED'' = None
   \<and> tracingEnabled demo identityOptions
   \<and> \<not> profilingEnabled demo identityOptions
   \<and> \<not> metricsEnabled demo identityOptions False
   \<and> metricsEnabled demo identityOptions True"
proof -
  have flags:
    "parseEnvBooleanString (getNonEmptyEnvVar (env demoFlags) ''SPLUNK_TRACING_ENABLED'') = Some False"
    "parseEnvBooleanString (getNonEmptyEnvVar (env demoFlags) ''SPLUNK_PROFILER_ENABLED'') = Some True"
    "parseEnvBooleanString (getNonEmptyEnvVar (env demoFlags) ''SPLUNK_METRICS_ENABLED'') = Some True"
    by (simp_all add: demoFlags_def demo_def parseEnvBooleanString_def getNonEmptyEnvVar_def
        lowerChar_def)
  have envs:
    "env demoFlags ''SPLUNK_TRACING_ENABLED'' = Some ''false''"
    "env demoFlags ''SPLUNK_PROFILER_ENABLED'' = Some ''true''"
    "env demoFlags ''SPLUNK_METRICS_ENABLED'' = Some ''True''"
    "env demo ''SPLUNK_TRACING_ENABLED'' = None"
    "env demo ''SPLUNK_PROFILER_ENABLED'' = None"
    "env demo ''SPLUNK_METRICS_ENABLED'' = None"
    by (simp_all add: demoFlags_def demo_def)
  have gets:
    "get identityOptions ''tracing'' = JUndefined"
    "get identityOptions ''profiling'' = JUndefined"
    "get identityOptions ''metrics'' = JUndefined"
    "get ((''tracing'', JBool True) # identityOptions) ''tracing'' = JBool True"
    "get ((''profiling'', JBool False) # identityOptions) ''profiling'' = JBool False"
    "get ((''metrics'', JBool False) # identityOptions) ''metrics'' = JBool False"
    "get ((''tracing'', JObject []) # identityOptions) ''tracing'' = JObject []"
    by (simp_all add: get_def identityOptions_def)
  show ?thesis
    using
      isSignalEnabled_precedence
        [of JNull "env demoFlags" "''SPLUNK_TRACING_ENABLED''" True True "[]" False
          identityOptions demoFlags False]
      isSignalEnabled_precedence
        [of JNull "env demoFlags" "''SPLUNK_TRACING_ENABLED''" True True "[]" True
          identityOptions demoFlags False]
      isSignalEnabled_precedence
        [of JNull "env demoFlags" "''SPLUNK_TRACING_ENABLED''" True True "[]" False
          "(''tracing'', JBool True) # identityOptions" demoFlags False]
      isSignalEnabled_precedence
        [of JNull "env demoFlags" "''SPLUNK_TRACING_ENABLED''" True True "[]" False
          "(''profiling'', JBool False) # identityOptions" demoFlags False]
      isSignalEnabled_precedence
        [of JNull "env demoFlags" "''SPLUNK_TRACING_ENABLED''" True True "[]" False
          "(''metrics'', JBool False) # identityOptions" demoFlags True]
      isSignalEnabled_precedence
        [of JNull "env demoFlags" "''SPLUNK_TRACING_ENABLED''" True True "[]" False
          "(''tracing'', JObject []) # identityOptions" demoFlags False]
      isSignalEnabled_precedence
        [of JNull "env demo" "''SPLUNK_TRACING_ENABLED''" True True "[]" False
          identityOptions demo False]
      isSignalEnabled_precedence
        [of JNull "env demo" "''SPLUNK_TRACING_ENABLED''" True True "[]" False
          identityOptions demo True]
    by (simp add: flags envs gets)
qed

text \<open>
  C4. For every options object with a top-level key outside accessToken, endpoint,
  serviceName, logLevel, metrics, profiling, tracing: a \<^verbatim>\<open>start\<close> on a process whose three
  handles are absent throws the unrecognized-option error, which names that key, before
  anything else happens: no logger is installed, no subsystem is started, and the three
  handles remain absent (the process is unchanged).
\<close>

theorem start_rejects_unrecognized_key:
  assumes "metrics (running s) = None" "profiling (running s) = None" "tracing (running s) = None"
    and "k \<in> set (keys options)"
    and "k \<notin> set [''accessToken'', ''endpoint'', ''serviceName'', ''logLevel'',
                   ''metrics'', ''profiling'', ''tracing'']"
  shows "\<exists>ks. k \<in> set ks
           \<and> start c options s = (Inl (UnrecognizedOption ks), s)"
proof -
  let ?extraneous = "filter (\<lambda>k. k \<notin> set [''accessToken'', ''endpoint'', ''serviceName'', ''logLevel''])
                      (keys (restOptions options))"
  have "k \<in> set (keys (restOptions options))"
    using assms(4,5) by (auto simp: keys_def restOptions_def)
  then have mem: "k \<in> set ?extraneous" using assms(5) by simp
  then have "?extraneous \<noteq> []" by (auto simp: filter_empty_conv)
  then have "assertNoExtraneousProperties (restOptions options)
      [''accessToken'', ''endpoint'', ''serviceName'', ''logLevel''] = Inl (UnrecognizedOption ?extraneous)"
    unfolding assertNoExtraneousProperties_def by (cases ?extraneous) simp_all
  then have "start c options s = (Inl (UnrecognizedOption ?extraneous), s)"
    using assms(1-3) by (simp add: start_def)
  with mem show ?thesis by blast
qed

text \<open>Instance: the misspelt key \<^verbatim>\<open>servicName\<close>.\<close>

theorem start_rejects_unrecognized_key_witness:
  "''servicName'' \<in> set (keys typoOptions)
   \<and> ''servicName'' \<notin> set [''accessToken'', ''endpoint'', ''serviceName'', ''logLevel'',
                                  ''metrics'', ''profiling'', ''tracing'']
   \<and> running fresh = noHandles
   \<and> start demo typoOptions fresh = (Inl (UnrecognizedOption [''servicName'']), fresh)"
proof -
  have "\<exists>ks. ''servicName'' \<in> set ks \<and> start demo typoOptions fresh = (Inl (UnrecognizedOption ks), fresh)"
    by (rule start_rejects_unrecognized_key [of fresh "''servicName''" typoOptions demo])
       (simp_all add: fresh_def noHandles_def typoOptions_def keys_def)
  moreover have "start demo typoOptions fresh = (Inl (UnrecognizedOption [''servicName'']), fresh)"
    by (simp add: fresh_def typoOptions_def start_def noHandles_def
      assertNoExtraneousProperties_def restOptions_def keys_def)
  ultimately show ?thesis
    by (simp add: fresh_def typoOptions_def keys_def)
qed

text \<open>
  C5. After any \<^verbatim>\<open>stop\<close> call the three handles are absent in the state the call returns
  with its promise, however that promise settles later (also when it never does). If a
  stop operation that was issued fails, the aggregate completion is rejected. Either way
  the next \<^verbatim>\<open>start\<close> never throws the re-entrant error: its outcome is the one it would have
  on a process that was never started.
\<close>

theorem stop_clears_handles_even_on_failure:
  "running (snd (stop c s)) = noHandles
   \<and> ((\<exists>h. metrics (running s) = Some h \<and> metricsStop c h = Rejected)
        \<or> (tracing (running s) \<noteq> None \<and> stopTracing c = Rejected)
        \<or> (\<exists>h e. profiling (running s) = Some h \<and> profilingStop c h = Inl e)
       \<longrightarrow> fst (stop c s) = Rejected)
   \<and> (\<forall>c' options. fst (start c' options (snd (stop c s))) \<noteq> Inl AlreadyStarted)
   \<and> (\<forall>c' options. fst (start c' options (snd (stop c s))) =
                      fst (start c' options \<lparr>running = noHandles, effects = []\<rparr>))"
proof (intro conjI impI allI)
  show r: "running (snd (stop c s)) = noHandles" by (rule stop_running)
  show "fst (stop c s) = Rejected"
    if "(\<exists>h. metrics (running s) = Some h \<and> metricsStop c h = Rejected)
        \<or> (tracing (running s) \<noteq> None \<and> stopTracing c = Rejected)
        \<or> (\<exists>h e. profiling (running s) = Some h \<and> profilingStop c h = Inl e)"
    using that by (rule stop_rejects)
  show "fst (start c' options (snd (stop c s))) \<noteq> Inl AlreadyStarted" for c' options
    using r
    by (auto simp: start_def noHandles_def profilingBlock_def tracingBlock_def metricsBlock_def
        assertNoExtraneousProperties_def split: sum.splits list.splits)
  show "fst (start c' options (snd (stop c s))) =
          fst (start c' options \<lparr>running = noHandles, effects = []\<rparr>)" for c' options
    by (rule start_outcome_depends_on_running) (simp add: r)
qed

text \<open>Instance: the metrics shutdown is rejected; the handles are cleared and the next \<^verbatim>\<open>start\<close> returns normally.\<close>

theorem stop_clears_handles_even_on_failure_witness:
  "metrics (running started) = Some ''metrics-handle''
   \<and> metricsStop demo ''metrics-handle'' = Rejected
   \<and> stop demo started = (Rejected, stopped)
   \<and> running stopped = noHandles
   \<and> fst (start demo fullOptions stopped) = Inr ()"
  using stop_clears_handles_even_on_failure [of demo started] demo_stop_started demo_restart
  by (simp add: started_def stopped_def demo_def)

text \<open>
  C6. In a \<^verbatim>\<open>start\<close> call that returns normally, the subsystem start calls it made are, in
  this order, profiling (if enabled), tracing (if enabled), metrics (if enabled, with the
  default the profiling step computed); each enablement is resolved right before its
  start. In every \<^verbatim>\<open>stop\<close> call the shutdown operations issued are, in this order, metrics,
  tracing, profiling, each only if its handle is present.
\<close>

theorem start_and_stop_order:
  "(start c options s = (Inr (), s') \<longrightarrow>
      filter isSubsystemStart (drop (length (effects s)) (effects s')) =
        (if profilingEnabled c options then [StartProfiling (profilingOptions c options)] else []) @
        (if tracingEnabled c options then [StartTracing (tracingOptions c options)] else []) @
        (if metricsEnabled c options (metricsEnabledByDefault c options)
         then [StartMetrics (metricsOptions c options)] else []))
   \<and> effects (snd (stop c s)) = effects s @
        (case metrics (running s) of Some h \<Rightarrow> [MetricsStop h] | None \<Rightarrow> []) @
        (case tracing (running s) of Some h \<Rightarrow> [StopTracing] | None \<Rightarrow> []) @
        (case profiling (running s) of Some h \<Rightarrow> [ProfilingStop h] | None \<Rightarrow> [])"
proof (intro conjI impI)
  assume ok: "start c options s = (Inr (), s')"
  have "filter isSubsystemStart (loggerCalls c options) = []"
    by (simp add: loggerCalls_def)
  moreover have "filter isSubsystemStart (meterProviderInjections c) = []"
    by (simp add: meterProviderInjections_def comp_def)
  moreover have "filter isSubsystemStart (subsystemStarts c options) = subsystemStarts c options"
    by (simp add: subsystemStarts_def)
  ultimately have "filter isSubsystemStart (drop (length (effects s)) (effects s'))
      = subsystemStarts c options"
    using start_Inr_effects [OF ok] by simp
  then show "filter isSubsystemStart (drop (length (effects s)) (effects s')) =
        (if profilingEnabled c options then [StartProfiling (profilingOptions c options)] else []) @
        (if tracingEnabled c options then [StartTracing (tracingOptions c options)] else []) @
        (if metricsEnabled c options (metricsEnabledByDefault c options)
         then [StartMetrics (metricsOptions c options)] else [])"
    by (simp only: subsystemStarts_def)
next
  show "effects (snd (stop c s)) = effects s @
        (case metrics (running s) of Some h \<Rightarrow> [MetricsStop h] | None \<Rightarrow> []) @
        (case tracing (running s) of Some h \<Rightarrow> [StopTracing] | None \<Rightarrow> []) @
        (case profiling (running s) of Some h \<Rightarrow> [ProfilingStop h] | None \<Rightarrow> [])"
    by (rule stop_effects)
qed

text \<open>Instance: all three signals started, then stopped.\<close>

theorem start_and_stop_order_witness:
  "start demo fullOptions fresh = (Inr (), started)
   \<and> filter isSubsystemStart (drop (length (effects fresh)) (effects started)) =
       [StartProfiling (profilingOptions demo fullOptions),
        StartTracing (tracingOptions demo fullOptions),
        StartMetrics (metricsOptions demo fullOptions)]
   \<and> effects (snd (stop demo started)) =
       effects started @
       [MetricsStop ''metrics-handle'', StopTracing, ProfilingStop ''profiling-handle'']"
  using start_and_stop_order [of demo fullOptions fresh started] demo_start_full
    start_and_stop_order [of demo fullOptions started started]
  by (simp add: started_def fresh_def demo_def fullOptions_def
      profilingOptions_def tracingOptions_def metricsOptions_def objectAssign_def pick_def
      restOptions_def get_def)

text \<open>
  C7 (as amended). In every \<^verbatim>\<open>start\<close> call that passes the re-entrant check and the
  validation of the option keys, the log level is the explicit \<^verbatim>\<open>logLevel\<close> option if one
  is given (a truthy value), else what \<^verbatim>\<open>parseLogLevel\<close> makes of the log-level environment
  variable (its default when the variable is unset). If the level is \<^verbatim>\<open>NONE\<close> the call
  installs no logger; otherwise installing the console logger at that level is the first
  thing the call does, before any subsystem start, and it happens once. This holds also
  when a subsystem start throws later.
\<close>

theorem logger_installed_before_subsystems:
  assumes "metrics (running s) = None" "profiling (running s) = None" "tracing (running s) = None"
    and "assertNoExtraneousProperties (restOptions options)
           [''accessToken'', ''endpoint'', ''serviceName'', ''logLevel''] = Inr ()"
  shows "logLevel c options =
           (if truthy (get options ''logLevel'') then toDiagLogLevel c (get options ''logLevel'')
            else parseLogLevel c (getNonEmptyEnvVar (env c) ''OTEL_LOG_LEVEL''))
         \<and> (\<exists>rest. effects (snd (start c options s)) =
                effects s
                @ (if logLevel c options = NONE then [] else [SetConsoleLogger (logLevel c options)])
                @ rest
              \<and> filter isLoggerCall rest = [])"
  using start_checked_effects [OF assms, of c]
  by (simp add: logLevel_def loggerCalls_def)

text \<open>Instances: an explicit level, and no level anywhere.\<close>

theorem logger_installed_before_subsystems_witness:
  "running fresh = noHandles
   \<and> assertNoExtraneousProperties (restOptions fullOptions)
         [''accessToken'', ''endpoint'', ''serviceName'', ''logLevel''] = Inr ()
   \<and> assertNoExtraneousProperties (restOptions identityOptions)
         [''accessToken'', ''endpoint'', ''serviceName'', ''logLevel''] = Inr ()
   \<and> logLevel demo fullOptions = DEBUG
   \<and> take 1 (effects (snd (start demo fullOptions fresh))) = [SetConsoleLogger DEBUG]
   \<and> logLevel demo identityOptions = NONE
   \<and> filter isLoggerCall (effects (snd (start demo identityOptions fresh))) = []"
  using logger_installed_before_subsystems [of fresh fullOptions demo]
    logger_installed_before_subsystems [of fresh identityOptions demo]
    demo_start_full demo_start_identity demo_levels
  by (simp add: fresh_def noHandles_def fullOptions_def identityOptions_def keys_def
      started_def tracingOnly_def assertNoExtraneousProperties_def restOptions_def)

text \<open>
  C7, as stated, speaks of every \<^verbatim>\<open>start\<close> call. A call on a process that holds a handle,
  and a call with an unrecognized key, throw before line 94: no logger is installed
  although the explicit level, \<^verbatim>\<open>debug\<close>, is not \<^verbatim>\<open>NONE\<close>.
\<close>

theorem logger_not_installed_counterexample:
  "logLevel demo fullOptions = DEBUG
   \<and> tracing (running busy) = Some ''tracing-handle''
   \<and> effects (snd (start demo fullOptions busy)) = []
   \<and> SetConsoleLogger (logLevel demo fullOptions) \<notin> set (effects (snd (start demo fullOptions busy)))
   \<and> logLevel demo typoOptions = DEBUG
   \<and> start demo typoOptions fresh = (Inl (UnrecognizedOption [''servicName'']), fresh)
   \<and> SetConsoleLogger (logLevel demo typoOptions) \<notin> set (effects (snd (start demo typoOptions fresh)))"
  using demo_busy demo_typo demo_levels
  by (simp add: busy_def fresh_def)

text \<open>
  C8. Every \<^verbatim>\<open>start\<close> call that returns normally ends, after the logger call and the
  subsystem starts and whichever signals were enabled, by injecting one meter provider
  into every instrumentation the registry returns, in the registry's order: the API's
  provider if \<^verbatim>\<open>getEnvBoolean\<close> of the instrumentation-metrics flag with default \<^verbatim>\<open>false\<close> is
  true, the no-op provider otherwise.
\<close>

theorem meter_provider_propagated:
  assumes "start c options s = (Inr (), s')"
  shows "effects s' =
     effects s @ loggerCalls c options @ subsystemStarts c options @
     map (\<lambda>instrumentation. SetMeterProvider instrumentation
            (if getEnvBoolean c ''SPLUNK_INSTRUMENTATION_METRICS_ENABLED'' False
             then ApiMeterProvider else NoopMeterProvider))
         (getLoadedInstrumentations c)"
  using start_Inr_effects [OF assms]
  by (simp add: meterProviderInjections_def chosenMeterProvider_def)

text \<open>Instances: no signal enabled and the flag set; tracing alone and the flag unset.\<close>

theorem meter_provider_propagated_witness:
  "start demoInstrumented [(''tracing'', JBool False)] fresh = (Inr (), injectedOnly)
   \<and> subsystemStarts demoInstrumented [(''tracing'', JBool False)] = []
   \<and> effects injectedOnly =
       [SetMeterProvider ''http'' ApiMeterProvider, SetMeterProvider ''express'' ApiMeterProvider]
   \<and> start demo identityOptions fresh = (Inr (), tracingOnly)
   \<and> effects tracingOnly =
       [StartTracing (tracingOptions demo identityOptions),
        SetMeterProvider ''http'' NoopMeterProvider, SetMeterProvider ''express'' NoopMeterProvider]"
  using meter_provider_propagated [OF demo_start_untraced]
    meter_provider_propagated [OF demo_start_identity]
    demo_start_untraced demo_start_identity
  by (simp add: injectedOnly_def tracingOnly_def fresh_def subsystemStarts_def
      demoInstrumented_def demo_def identityOptions_def
      profilingEnabled_def tracingEnabled_def metricsEnabled_def isSignalEnabled_def get_def
      parseEnvBooleanString_def getNonEmptyEnvVar_def
      tracingOptions_def objectAssign_def pick_def restOptions_def)

text \<open>
  C9. \<^verbatim>\<open>stop\<close> on a process with no handle present issues no shutdown call, leaves the
  handles absent (the process is unchanged) and returns a completion that is fulfilled:
  \<^verbatim>\<open>Promise.all\<close> of no promises.
\<close>

theorem stop_when_nothing_running:
  assumes "metrics (running s) = None" "profiling (running s) = None" "tracing (running s) = None"
  shows "stop c s = (Fulfilled, s)"
  using assms
  by (simp add: stop_def stopMetricsBlock_def stopTracingBlock_def stopProfilingBlock_def promiseAll_def)

text \<open>Instance: \<^verbatim>\<open>stop\<close> before any \<^verbatim>\<open>start\<close>.\<close>

theorem stop_when_nothing_running_witness:
  "running fresh = noHandles \<and> stop demo fresh = (Fulfilled, fresh)"
  using stop_when_nothing_running [of fresh demo]
  by (simp add: fresh_def noHandles_def)

text \<open>
  C10. The re-entrant check comes before the validation of the option keys: for every
  options object, if any handle is present, \<^verbatim>\<open>start\<close> throws the re-entrant error and never
  the unrecognized-option error, also when the object has unrecognized top-level keys.
\<close>

theorem reentrant_check_precedes_validation:
  assumes "metrics (running s) \<noteq> None \<or> profiling (running s) \<noteq> None \<or> tracing (running s) \<noteq> None"
  shows "fst (start c options s) = Inl AlreadyStarted
         \<and> (\<forall>ks. fst (start c options s) \<noteq> Inl (UnrecognizedOption ks))"
  using assms by (simp add: start_def)

text \<open>Instance: an options object that validation rejects on a process with no handle is met with the re-entrant error on a process that holds the tracing handle.\<close>

theorem reentrant_check_precedes_validation_witness:
  "assertNoExtraneousProperties (restOptions typoOptions)
     [''accessToken'', ''endpoint'', ''serviceName'', ''logLevel'']
     = Inl (UnrecognizedOption [''servicName''])
   \<and> fst (start demo typoOptions fresh) = Inl (UnrecognizedOption [''servicName''])
   \<and> tracing (running busy) = Some ''tracing-handle''
   \<and> fst (start demo typoOptions busy) = Inl AlreadyStarted"
  using reentrant_check_precedes_validation [of busy demo typoOptions]
  by (simp add: busy_def typoOptions_def fresh_def start_def noHandles_def
      assertNoExtraneousProperties_def restOptions_def keys_def)

end
